theory Spec2Isabelle
  imports Main
begin

section \<open>The transform package of jaq: piped data and argument templates\<close>

text \<open>
  This theory embeds \<^verbatim>\<open>transform/transform.go\<close>. A Go \<^verbatim>\<open>string\<close> is a sequence
  of bytes, and so is an Isabelle \<^typ>\<open>string\<close>: \<^const>\<open>length\<close> is Go's \<^verbatim>\<open>len\<close>
  and \<^const>\<open>take\<close> is the slice \<^verbatim>\<open>s[:n]\<close>.

  A call of the code ends in one of three ways: it returns, it panics (a runtime error
  such as an index out of range), or it ends the process (\<^verbatim>\<open>log.Fatalf\<close>).
\<close>

datatype 'a outcome = Return 'a | Panic string | Fatal string

text \<open>
  Go \<^verbatim>\<open>error\<close> values: \<^verbatim>\<open>io.EOF\<close>, a \<^verbatim>\<open>*json.SyntaxError\<close>, an error made by
  \<^verbatim>\<open>errors.New\<close> or \<^verbatim>\<open>fmt.Errorf\<close> (its message), and any other error of a library.
\<close>

datatype error = EOF | SyntaxError string | ErrorString string | OtherError string

fun Error :: "error \<Rightarrow> string" where
  "Error EOF = ''EOF''"
| "Error (SyntaxError msg) = msg"
| "Error (ErrorString msg) = msg"
| "Error (OtherError msg) = msg"

text \<open>
  The values \<^verbatim>\<open>encoding/json\<close> stores into an \<^verbatim>\<open>interface{}\<close>: \<^verbatim>\<open>nil\<close>, \<^verbatim>\<open>bool\<close>,
  \<^verbatim>\<open>float64\<close>, \<^verbatim>\<open>string\<close>, \<^verbatim>\<open>[]interface{}\<close> and \<^verbatim>\<open>map[string]interface{}\<close>.
  The type \<^typ>\<open>'n\<close> stands for \<^verbatim>\<open>float64\<close>. The entries of a map are listed in
  increasing key order, the order in which \<^verbatim>\<open>fmt\<close> and \<^verbatim>\<open>json.Marshal\<close> print them.
\<close>

datatype 'n json =
    JNull
  | JBool bool
  | JNumber 'n
  | JString string
  | JArray "'n json list"
  | JObject "(string \<times> 'n json) list"

text \<open>
  The functions of the libraries the package calls that are not modelled byte by byte
  are the fields of a record. \<^typ>\<open>'r\<close> is the state of an \<^verbatim>\<open>io.Reader\<close> and \<^typ>\<open>'d\<close>
  the state of a \<^verbatim>\<open>*json.Decoder\<close> (with the reader it reads from).

  \<^item> \<open>NewDecoder r\<close>: \<^verbatim>\<open>json.NewDecoder(r)\<close>.
  \<^item> \<open>More dec\<close>: \<^verbatim>\<open>dec.More()\<close>, and the decoder after the call.
  \<^item> \<open>Decode dec\<close>: \<^verbatim>\<open>err := dec.Decode(&m)\<close> for a fresh \<^verbatim>\<open>var m interface{}\<close>:
    the value of \<^verbatim>\<open>m\<close> after the call (\<^const>\<open>JNull\<close> when nothing was stored),
    \<^verbatim>\<open>err\<close>, and the decoder after the call.
  \<^item> \<open>Buffered dec\<close>: the bytes \<^verbatim>\<open>dec.Buffered()\<close> reads.
  \<^item> \<open>Source dec\<close>: the reader the decoder was made from, after the decoder's reads.
  \<^item> \<open>MultiReader rest r\<close>: \<^verbatim>\<open>io.MultiReader(subR, r)\<close> where \<open>rest\<close> is what is
    left unread in \<^verbatim>\<open>subR\<close>.
  \<^item> \<open>ScanWords bs\<close>: a \<^verbatim>\<open>bufio.Scanner\<close> with \<^verbatim>\<open>bufio.ScanWords\<close> over the bytes
    \<open>bs\<close>: the texts of the successful \<^verbatim>\<open>Scan()\<close> calls, then \<^verbatim>\<open>scanner.Err()\<close>.
  \<^item> \<open>Marshal v\<close>: \<^verbatim>\<open>json.Marshal(v)\<close>.
  \<^item> \<open>ParseJSON s\<close>: \<^verbatim>\<open>gabs.ParseJSON([]byte(s))\<close>, \<^const>\<open>None\<close> for an error.
  \<^item> \<open>Path parsed path\<close>: \<^verbatim>\<open>parsed.Path(path)\<close> of \<^verbatim>\<open>gabs\<close>, the container the
    search ends in; a \<^verbatim>\<open>*Container\<close> is an option, \<^const>\<open>None\<close> for \<^verbatim>\<open>nil\<close>.
  \<^item> \<open>FormatFloat x\<close>: \<^verbatim>\<open>fmt.Sprint(x)\<close> for a \<^verbatim>\<open>float64\<close>.
  \<^item> \<open>Quote s\<close>: \<^verbatim>\<open>fmt.Sprintf("%q", s)\<close>, which is \<^verbatim>\<open>strconv.Quote(s)\<close>.
\<close>

record ('r, 'd, 'n) library =
  NewDecoder :: "'r \<Rightarrow> 'd"
  More :: "'d \<Rightarrow> bool \<times> 'd"
  Decode :: "'d \<Rightarrow> ('n json \<times> error option) \<times> 'd"
  Buffered :: "'d \<Rightarrow> string"
  Source :: "'d \<Rightarrow> 'r"
  MultiReader :: "string \<Rightarrow> 'r \<Rightarrow> 'r"
  ScanWords :: "string \<Rightarrow> string list \<times> error option"
  Marshal :: "'n json \<Rightarrow> error + string"
  ParseJSON :: "string \<Rightarrow> 'n json option"
  Path :: "'n json \<Rightarrow> string \<Rightarrow> 'n json option"
  FormatFloat :: "'n \<Rightarrow> string"
  Quote :: "string \<Rightarrow> string"

subsection \<open>Rendering values: \<^verbatim>\<open>fmt.Sprint\<close> and \<^verbatim>\<open>truncatedValue\<close>\<close>

fun joinWith :: "string \<Rightarrow> string list \<Rightarrow> string" where
  "joinWith sep [] = []"
| "joinWith sep [x] = x"
| "joinWith sep (x # y # ys) = x @ sep @ joinWith sep (y # ys)"

text \<open>
  \<^verbatim>\<open>fmt.Sprint(i)\<close> (the verb \<^verbatim>\<open>%v\<close>) of a decoded JSON value: \<^verbatim>\<open>nil\<close> prints as
  \<^verbatim>\<open><nil>\<close>, a string as itself, a slice as \<^verbatim>\<open>[a b]\<close>, a map as \<^verbatim>\<open>map[k:v k:v]\<close>.
\<close>

fun Sprint :: "('r, 'd, 'n) library \<Rightarrow> 'n json \<Rightarrow> string" where
  "Sprint L JNull = ''<nil>''"
| "Sprint L (JBool b) = (if b then ''true'' else ''false'')"
| "Sprint L (JNumber x) = FormatFloat L x"
| "Sprint L (JString s) = s"
| "Sprint L (JArray xs) = ''['' @ joinWith '' '' (map (Sprint L) xs) @ '']''"
| "Sprint L (JObject kvs) =
     ''map['' @ joinWith '' '' (map (\<lambda>(k, v). k @ '':'' @ Sprint L v) kvs) @ '']''"

text \<open>The verb \<^verbatim>\<open>%T\<close>: the Go type of the value held by the interface.\<close>

fun typeName :: "'n json \<Rightarrow> string" where
  "typeName JNull = ''<nil>''"
| "typeName (JBool b) = ''bool''"
| "typeName (JNumber x) = ''float64''"
| "typeName (JString s) = ''string''"
| "typeName (JArray xs) = ''[]interface {}''"
| "typeName (JObject kvs) = ''map[string]interface {}''"

definition truncationLength :: nat where
  "truncationLength = 512"

definition truncatedSuffix :: string where
  "truncatedSuffix = ''...'' @ [CHR 0x0A] @ ''[Value truncated]''"

text \<open>
  \<^verbatim>\<open>truncatedValue\<close>: \<^verbatim>\<open>s := fmt.Sprint(i)\<close>; when \<^verbatim>\<open>len(s) > truncationLength\<close>,
  \<^verbatim>\<open>s = fmt.Sprintf("%q...\n[Value truncated]", s[:truncationLength])\<close>.
\<close>

definition truncatedValue :: "('r, 'd, 'n) library \<Rightarrow> 'n json \<Rightarrow> string" where
  "truncatedValue L i =
     (let s = Sprint L i
      in if length s > truncationLength
         then Quote L (take truncationLength s) @ truncatedSuffix
         else s)"

subsection \<open>\<^verbatim>\<open>strconv.Atoi\<close>, \<^verbatim>\<open>strings.SplitN\<close> and \<^verbatim>\<open>parseTransform\<close>\<close>

definition isDigit :: "char \<Rightarrow> bool" where
  "isDigit c = (48 \<le> (of_char c :: nat) \<and> (of_char c :: nat) \<le> 57)"

definition digitsValue :: "string \<Rightarrow> int" where
  "digitsValue ds = foldl (\<lambda>n ch. n * 10 + (of_char ch - 48)) 0 ds"

text \<open>
  \<^verbatim>\<open>strconv.Atoi\<close> on a platform with 64-bit \<^verbatim>\<open>int\<close>: an optional sign, then one
  or more decimal digits, and the value must fit the type; \<^const>\<open>None\<close> for an error.
\<close>

definition Atoi :: "string \<Rightarrow> int option" where
  "Atoi s =
     (let neg = (s \<noteq> [] \<and> hd s = CHR ''-'');
          ds = (if s \<noteq> [] \<and> (hd s = CHR ''-'' \<or> hd s = CHR ''+'') then tl s else s)
      in if ds = [] \<or> \<not> list_all isDigit ds then None
         else let n = (if neg then - digitsValue ds else digitsValue ds)
              in if - (2 ^ 63) \<le> n \<and> n \<le> 2 ^ 63 - 1 then Some n else None)"

text \<open>\<^verbatim>\<open>strings.SplitN(s, sep, 2)\<close> for a separator of one byte: split at its first occurrence.\<close>

definition SplitN2 :: "string \<Rightarrow> char \<Rightarrow> string list" where
  "SplitN2 s sep =
     (if sep \<in> set s
      then [takeWhile (\<lambda>c. c \<noteq> sep) s, tl (dropWhile (\<lambda>c. c \<noteq> sep) s)]
      else [s])"

definition parseTransform :: "string \<Rightarrow> int \<times> string" where
  "parseTransform s =
     (let parts = SplitN2 s (CHR ''.'')
      in if length parts = 1
         then (case Atoi s of None \<Rightarrow> (1, s) | Some pos \<Rightarrow> (pos, []))
         else (case Atoi (parts ! 0) of None \<Rightarrow> (1, s) | Some pos \<Rightarrow> (pos, parts ! 1)))"

subsection \<open>\<^verbatim>\<open>jsonQuery\<close>\<close>

text \<open>
  \<^verbatim>\<open>(*Container).Data()\<close>: the value a container holds, \<^verbatim>\<open>nil\<close> for the \<^verbatim>\<open>nil\<close>
  container.
\<close>

fun Data :: "'n json option \<Rightarrow> 'n json" where
  "Data None = JNull"
| "Data (Some object) = object"

definition jsonQuery :: "('r, 'd, 'n) library \<Rightarrow> string \<Rightarrow> string \<Rightarrow> string" where
  "jsonQuery L data query =
     (case ParseJSON L data of
        None \<Rightarrow> ''<nil>''
      | Some jsonParsed \<Rightarrow> Sprint L (Data (Path L jsonParsed query)))"

subsection \<open>\<^verbatim>\<open>dataLookup\<close>\<close>

text \<open>Indexing a slice, \<^verbatim>\<open>xs[i]\<close>: a runtime panic when \<open>i\<close> is out of range.\<close>

definition index :: "'a list \<Rightarrow> int \<Rightarrow> 'a outcome" where
  "index xs i =
     (if 0 \<le> i \<and> i < int (length xs) then Return (xs ! nat i)
      else Panic ''runtime error: index out of range'')"

definition dataLookup :: "('r, 'd, 'n) library \<Rightarrow> string list \<Rightarrow> string \<Rightarrow> string outcome" where
  "dataLookup L data s =
     (case parseTransform s of
        (pos, jsonKeyQuery) \<Rightarrow>
          if pos > int (length data) \<or> pos < 0 then Return ''<nil>''
          else (case index data (pos - 1) of
                  Return item \<Rightarrow>
                    if jsonKeyQuery = [] then Return item
                    else Return (jsonQuery L item jsonKeyQuery)
                | Panic msg \<Rightarrow> Panic msg
                | Fatal msg \<Rightarrow> Fatal msg))"

subsection \<open>\<^verbatim>\<open>os.Expand\<close> and \<^verbatim>\<open>transform\<close>\<close>

definition isShellSpecialVar :: "char \<Rightarrow> bool" where
  "isShellSpecialVar c = (c \<in> set ''*#$@!?-0123456789'')"

definition isAlphaNum :: "char \<Rightarrow> bool" where
  "isAlphaNum c =
     (c = CHR ''_'' \<or> isDigit c
      \<or> (97 \<le> (of_char c :: nat) \<and> (of_char c :: nat) \<le> 122)
      \<or> (65 \<le> (of_char c :: nat) \<and> (of_char c :: nat) \<le> 90))"

text \<open>
  \<^verbatim>\<open>getShellName(s)\<close>: the name that begins \<open>s\<close> (the text after a \<^verbatim>\<open>$\<close>) and the
  number of bytes it takes. After \<^verbatim>\<open>{\<close> the name runs to the closing brace; a special
  character, a digit among them, is a name of one byte by itself; otherwise the name is
  the longest run of letters, digits and underscores. \<^verbatim>\<open>os.Expand\<close> calls it on a
  string that is not empty.
\<close>

definition getShellName :: "string \<Rightarrow> string \<times> nat" where
  "getShellName s =
     (case s of
        [] \<Rightarrow> ([], 0)
      | c # rest \<Rightarrow>
          if c = CHR ''{'' then
            (if length s > 2 \<and> isShellSpecialVar (s ! 1) \<and> s ! 2 = CHR ''}''
             then ([s ! 1], 3)
             else (let name = takeWhile (\<lambda>x. x \<noteq> CHR ''}'') rest
                   in if length name = length rest then ([], 1)
                      else if name = [] then ([], 2)
                      else (name, length name + 2)))
          else if isShellSpecialVar c then ([c], 1)
          else (takeWhile isAlphaNum s, length (takeWhile isAlphaNum s)))"

text \<open>
  \<^verbatim>\<open>os.Expand(s, mapping)\<close>, as a recursion on the text that is left: a \<^verbatim>\<open>$\<close> that is
  not the last byte starts a marker, the marker's name is given to \<open>mapping\<close>, and the
  scan goes on after the bytes of the name. A marker with an empty name is either bad
  syntax, which is dropped, or a \<^verbatim>\<open>$\<close> that stays (so the current standard library
  has it; the properties below do not turn on a marker with an empty name). A panic of
  \<open>mapping\<close> ends the call.
\<close>

function Expand :: "string \<Rightarrow> (string \<Rightarrow> string outcome) \<Rightarrow> string outcome" where
  "Expand [] mapping = Return []"
| "Expand (c # cs) mapping =
     (if c = CHR ''$'' \<and> cs \<noteq> [] then
        (case getShellName cs of
           (name, w) \<Rightarrow>
             (case (if name = [] \<and> w > 0 then Return []
                    else if name = [] then Return [c]
                    else mapping name) of
                Return sub \<Rightarrow>
                  (case Expand (drop w cs) mapping of
                     Return rest \<Rightarrow> Return (sub @ rest)
                   | Panic msg \<Rightarrow> Panic msg
                   | Fatal msg \<Rightarrow> Fatal msg)
              | Panic msg \<Rightarrow> Panic msg
              | Fatal msg \<Rightarrow> Fatal msg))
      else (case Expand cs mapping of
              Return rest \<Rightarrow> Return (c # rest)
            | Panic msg \<Rightarrow> Panic msg
            | Fatal msg \<Rightarrow> Fatal msg))"
  by pat_completeness auto
termination
  by (relation "measure (\<lambda>(s, mapping). length s)") auto

definition transform :: "('r, 'd, 'n) library \<Rightarrow> string list \<Rightarrow> string \<Rightarrow> string outcome" where
  "transform L data arg = Expand arg (dataLookup L data)"

subsection \<open>\<^verbatim>\<open>readData\<close>\<close>

text \<open>
  The loop over the elements of an exploded array: an element that is not a
  \<^verbatim>\<open>map[string]interface{}\<close> ends \<^verbatim>\<open>readData\<close> with the error
  \<^verbatim>\<open>invalid piped data\<close>; every other element is marshalled and appended as a row
  of its own.
\<close>

fun explodeArray ::
  "('r, 'd, 'n) library \<Rightarrow> 'n json list \<Rightarrow> string list list \<Rightarrow> error + string list list" where
  "explodeArray L [] data = Inr data"
| "explodeArray L (obj # raw) data =
     (case obj of
        JObject jsonObj \<Rightarrow>
          (case Marshal L (JObject jsonObj) of
             Inl err \<Rightarrow> Inl err
           | Inr b \<Rightarrow> explodeArray L raw (data @ [[b]]))
      | _ \<Rightarrow> Inl (ErrorString ''invalid piped data''))"

text \<open>
  What one pass through the body of the \<^verbatim>\<open>for dec.More()\<close> loop decides: to go on
  with the loop, to jump to the label \<^verbatim>\<open>ProcessLoop\<close> with a new reader, or to
  leave \<^verbatim>\<open>readData\<close>.
\<close>

datatype ('r, 'd) action =
    Next 'd "string list list"
  | Restart 'r "string list list"
  | Done "(error + string list list) outcome"

text \<open>
  The \<^verbatim>\<open>switch raw := m.(type)\<close>. The case \<^verbatim>\<open>nil\<close> takes the words of the bytes
  the decoder has buffered as rows; an error of the scanner ends the process through
  \<^verbatim>\<open>log.Fatalf\<close>. When the scanner ends without an error it has read \<^verbatim>\<open>subR\<close> to
  its end, so nothing of \<^verbatim>\<open>subR\<close> is left for the \<^verbatim>\<open>MultiReader\<close>.
\<close>

definition typeSwitch ::
  "('r, 'd, 'n) library \<Rightarrow> bool \<Rightarrow> 'd \<Rightarrow> 'n json \<Rightarrow> string list list \<Rightarrow> ('r, 'd) action" where
  "typeSwitch L explodeArrays dec m data =
     (case m of
        JArray raw \<Rightarrow>
          if explodeArrays then
            (case explodeArray L raw data of
               Inl err \<Rightarrow> Done (Return (Inl err))
             | Inr data' \<Rightarrow> Next dec data')
          else
            (case Marshal L (JArray raw) of
               Inl err \<Rightarrow> Done (Return (Inl err))
             | Inr b \<Rightarrow> Next dec (data @ [[b]]))
      | JObject raw \<Rightarrow>
          (case Marshal L (JObject raw) of
             Inl err \<Rightarrow> Done (Return (Inl err))
           | Inr b \<Rightarrow> Next dec (data @ [[b]]))
      | JNull \<Rightarrow>
          (case ScanWords L (Buffered L dec) of
             (words, scanErr) \<Rightarrow>
               (case scanErr of
                  Some err \<Rightarrow> Done (Fatal (''reading standard input: '' @ Error err))
                | None \<Rightarrow>
                    Restart (MultiReader L [] (Source L dec)) (data @ map (\<lambda>w. [w]) words)))
      | _ \<Rightarrow>
          Done (Return (Inl (ErrorString
            (''unexpected type ('' @ typeName m @ ''): '' @ truncatedValue L m)))))"

text \<open>
  The body of the loop: \<^verbatim>\<open>io.EOF\<close> breaks out of the loop (and \<^verbatim>\<open>readData\<close>
  returns the rows), a syntax error leaves \<^verbatim>\<open>m\<close> as it is and goes on to the
  switch, any other error is returned.
\<close>

definition loopBody ::
  "('r, 'd, 'n) library \<Rightarrow> bool \<Rightarrow> 'd \<Rightarrow> string list list \<Rightarrow> ('r, 'd) action" where
  "loopBody L explodeArrays dec data =
     (case Decode L dec of
        ((m, err), dec') \<Rightarrow>
          (case err of
             None \<Rightarrow> typeSwitch L explodeArrays dec' m data
           | Some EOF \<Rightarrow> Done (Return (Inr data))
           | Some (SyntaxError msg) \<Rightarrow> typeSwitch L explodeArrays dec' m data
           | Some (ErrorString msg) \<Rightarrow> Done (Return (Inl (ErrorString msg)))
           | Some (OtherError msg) \<Rightarrow> Done (Return (Inl (OtherError msg)))))"

text \<open>
  The jump \<^verbatim>\<open>goto ProcessLoop\<close> and the \<^verbatim>\<open>for\<close> loop of \<^verbatim>\<open>readData\<close>, as one
  function of the place the control is at. A run that never ends has the value
  \<^const>\<open>None\<close>.
\<close>

datatype ('r, 'd) place = ProcessLoop 'r | ForLoop 'd

partial_function (option) readLoop ::
  "('r, 'd, 'n) library \<Rightarrow> bool \<Rightarrow> ('r, 'd) place \<Rightarrow> string list list
     \<Rightarrow> (error + string list list) outcome option" where
  "readLoop L explodeArrays pc data =
     (case pc of
        ProcessLoop r \<Rightarrow> readLoop L explodeArrays (ForLoop (NewDecoder L r)) data
      | ForLoop dec \<Rightarrow>
          (case More L dec of
             (hasMore, dec') \<Rightarrow>
               if \<not> hasMore then Some (Return (Inr data))
               else (case loopBody L explodeArrays dec' data of
                       Next dec'' data' \<Rightarrow> readLoop L explodeArrays (ForLoop dec'') data'
                     | Restart r data' \<Rightarrow> readLoop L explodeArrays (ProcessLoop r) data'
                     | Done out \<Rightarrow> Some out)))"

declare readLoop.simps [code]

definition readData ::
  "('r, 'd, 'n) library \<Rightarrow> 'r \<Rightarrow> bool \<Rightarrow> (error + string list list) outcome option" where
  "readData L r explodeArrays = readLoop L explodeArrays (ProcessLoop r) []"

subsection \<open>\<^verbatim>\<open>InputToCommands\<close>\<close>

text \<open>A loop that fills a slice element by element; the first panic ends it.\<close>

fun mapOutcome :: "('a \<Rightarrow> 'b outcome) \<Rightarrow> 'a list \<Rightarrow> 'b list outcome" where
  "mapOutcome f [] = Return []"
| "mapOutcome f (x # xs) =
     (case f x of
        Return y \<Rightarrow>
          (case mapOutcome f xs of
             Return ys \<Rightarrow> Return (y # ys)
           | Panic msg \<Rightarrow> Panic msg
           | Fatal msg \<Rightarrow> Fatal msg)
      | Panic msg \<Rightarrow> Panic msg
      | Fatal msg \<Rightarrow> Fatal msg)"

definition buildCmds ::
  "('r, 'd, 'n) library \<Rightarrow> string list list \<Rightarrow> string list \<Rightarrow> string list list outcome" where
  "buildCmds L data args = mapOutcome (\<lambda>row. mapOutcome (\<lambda>arg. transform L row arg) args) data"

definition InputToCommands ::
  "('r, 'd, 'n) library \<Rightarrow> 'r \<Rightarrow> string list \<Rightarrow> bool
     \<Rightarrow> (error + string list list) outcome option" where
  "InputToCommands L r args explodeArrays =
     (case readData L r explodeArrays of
        None \<Rightarrow> None
      | Some (Fatal msg) \<Rightarrow> Some (Fatal msg)
      | Some (Panic msg) \<Rightarrow> Some (Panic msg)
      | Some (Return (Inl err)) \<Rightarrow> Some (Return (Inl err))
      | Some (Return (Inr data)) \<Rightarrow>
          if length data = 0 then Some (Return (Inr [args]))
          else (case buildCmds L data args of
                  Return cmds \<Rightarrow> Some (Return (Inr cmds))
                | Panic msg \<Rightarrow> Some (Panic msg)
                | Fatal msg \<Rightarrow> Some (Fatal msg)))"

subsection \<open>A library over tabulated documents, for running the model\<close>

text \<open>
  To run the model on a concrete input the library record is filled in by a small
  stand-in: the reader hands over all its bytes at the first read (as a
  \<^verbatim>\<open>bytes.Buffer\<close> of at most 512 bytes does), a JSON text is decoded by looking it up
  in a table of texts and the values \<^verbatim>\<open>encoding/json\<close> decodes them to, any other
  text is a syntax error, the words are split at ASCII white space, and a text is
  quoted by putting it between double quotes (which is \<^verbatim>\<open>strconv.Quote\<close> on
  letters). The table lists compact texts, so marshalling is the lookup in the other
  direction. The stand-in takes the place of the libraries only on inputs made of
  tabulated documents and plain words; the general theorems about the package hold for
  every library.
\<close>

definition isJSONSpace :: "char \<Rightarrow> bool" where
  "isJSONSpace c = (c = CHR '' '' \<or> c = CHR 0x09 \<or> c = CHR 0x0D \<or> c = CHR 0x0A)"

definition isWordSpace :: "char \<Rightarrow> bool" where
  "isWordSpace c =
     (c = CHR '' '' \<or> c = CHR 0x09 \<or> c = CHR 0x0A \<or> c = CHR 0x0B \<or> c = CHR 0x0C \<or> c = CHR 0x0D)"

fun splitWords :: "string \<Rightarrow> string \<Rightarrow> string list" where
  "splitWords cur [] = (if cur = [] then [] else [cur])"
| "splitWords cur (c # cs) =
     (if isWordSpace c then (if cur = [] then splitWords [] cs else cur # splitWords [] cs)
      else splitWords (cur @ [c]) cs)"

text \<open>
  A \<^verbatim>\<open>bufio.Scanner\<close> holds a token in a buffer of at most \<^verbatim>\<open>bufio.MaxScanTokenSize\<close>
  bytes: a word that does not fit ends the scan with the error \<^verbatim>\<open>bufio.ErrTooLong\<close>,
  after the words before it.
\<close>

definition maxScanTokenSize :: int where
  "maxScanTokenSize = 64 * 1024"

definition scanWords :: "string \<Rightarrow> string list \<times> error option" where
  "scanWords bs =
     (let ws = splitWords [] bs
      in (takeWhile (\<lambda>w. int (length w) < maxScanTokenSize) ws,
          if list_all (\<lambda>w. int (length w) < maxScanTokenSize) ws then None
          else Some (OtherError ''bufio.Scanner: token too long'')))"

definition tableDecode ::
  "(string \<times> 'n json) list \<Rightarrow> string \<Rightarrow> ('n json \<times> error option) \<times> string" where
  "tableDecode docs buf =
     (let b = dropWhile isJSONSpace buf
      in if b = [] then ((JNull, Some EOF), b)
         else (case find (\<lambda>(text, v). take (length text) b = text) docs of
                 Some (text, v) \<Rightarrow> ((v, None), drop (length text) b)
               | None \<Rightarrow> ((JNull, Some (SyntaxError ''invalid character'')), b)))"

definition tableMarshal :: "(string \<times> 'n json) list \<Rightarrow> 'n json \<Rightarrow> error + string" where
  "tableMarshal docs v =
     (case find (\<lambda>(text, v'). v' = v) docs of
        Some (text, v') \<Rightarrow> Inr text
      | None \<Rightarrow> Inl (OtherError ''json: unsupported value''))"

definition tableMore :: "string \<Rightarrow> bool \<times> string" where
  "tableMore buf =
     (let b = dropWhile isJSONSpace buf
      in (b \<noteq> [] \<and> hd b \<noteq> CHR '']'' \<and> hd b \<noteq> CHR ''}'', b))"

text \<open>
  The search of \<^verbatim>\<open>gabs\<close> is stood in for by a search along the parts of the path
  between the dots (\<^verbatim>\<open>strings.Split(path, ".")\<close>): a map is entered by key; at a slice
  the rest of the path is searched in each element and the results that are not
  \<^verbatim>\<open>nil\<close> are collected; anything else, and a key that is missing, gives the \<^verbatim>\<open>nil\<close>
  container.
\<close>

fun Split :: "string \<Rightarrow> char \<Rightarrow> string list" where
  "Split [] sep = [[]]"
| "Split (c # cs) sep =
     (if c = sep then [] # Split cs sep
      else (case Split cs sep of [] \<Rightarrow> [[c]] | p # ps \<Rightarrow> (c # p) # ps))"

fun tableSearch :: "'n json \<Rightarrow> string list \<Rightarrow> 'n json option" where
  "tableSearch object [] = Some object"
| "tableSearch (JObject kvs) (h # hs) =
     (case map_of kvs h of None \<Rightarrow> None | Some v \<Rightarrow> tableSearch v hs)"
| "tableSearch (JArray xs) (h # hs) =
     (let tmpArray =
        filter (\<lambda>res. res \<noteq> JNull) (map (\<lambda>val. Data (tableSearch val (h # hs))) xs)
      in if tmpArray = [] then None else Some (JArray tmpArray))"
| "tableSearch _ (h # hs) = None"

definition tablePath :: "'n json \<Rightarrow> string \<Rightarrow> 'n json option" where
  "tablePath object path = tableSearch object (Split path (CHR ''.''))"

definition tableLib :: "(string \<times> unit json) list \<Rightarrow> (string, string, unit) library" where
  "tableLib docs =
     \<lparr> NewDecoder = (\<lambda>r. r),
       More = tableMore,
       Decode = tableDecode docs,
       Buffered = (\<lambda>dec. dec),
       Source = (\<lambda>dec. []),
       MultiReader = (\<lambda>rest r. rest @ r),
       ScanWords = scanWords,
       Marshal = tableMarshal docs,
       ParseJSON = map_of docs,
       Path = tablePath,
       FormatFloat = (\<lambda>x. ''0''),
       Quote = (\<lambda>s. [CHR 0x22] @ s @ [CHR 0x22]) \<rparr>"

subsection \<open>The places a run of \<^verbatim>\<open>readData\<close> comes to\<close>

text \<open>
  \<open>reaches L explodeArrays r pc data\<close>: the call \<^verbatim>\<open>readData(r, explodeArrays)\<close> comes
  to the place \<open>pc\<close> with the rows \<open>data\<close> gathered so far. A property of one pass through
  the loop is stated at a place the run reaches, so that it covers every pass, not only
  the first.
\<close>

inductive reaches ::
  "('r, 'd, 'n) library \<Rightarrow> bool \<Rightarrow> 'r \<Rightarrow> ('r, 'd) place \<Rightarrow> string list list \<Rightarrow> bool"
  for L :: "('r, 'd, 'n) library" and explodeArrays :: bool and r :: 'r where
  reach_start: "reaches L explodeArrays r (ProcessLoop r) []"
| reach_decoder:
    "reaches L explodeArrays r (ProcessLoop r') data \<Longrightarrow>
     reaches L explodeArrays r (ForLoop (NewDecoder L r')) data"
| reach_next:
    "reaches L explodeArrays r (ForLoop dec) data \<Longrightarrow>
     More L dec = (True, dec') \<Longrightarrow>
     loopBody L explodeArrays dec' data = Next dec'' data' \<Longrightarrow>
     reaches L explodeArrays r (ForLoop dec'') data'"
| reach_restart:
    "reaches L explodeArrays r (ForLoop dec) data \<Longrightarrow>
     More L dec = (True, dec') \<Longrightarrow>
     loopBody L explodeArrays dec' data = Restart r' data' \<Longrightarrow>
     reaches L explodeArrays r (ProcessLoop r') data'"

code_pred reaches .

text \<open>The dynamic types the type switch tells apart.\<close>

fun isObject :: "'n json \<Rightarrow> bool" where
  "isObject (JObject kvs) = True"
| "isObject _ = False"

fun isScalar :: "'n json \<Rightarrow> bool" where
  "isScalar (JString s) = True"
| "isScalar (JNumber x) = True"
| "isScalar (JBool b) = True"
| "isScalar _ = False"

text \<open>Whether a call returned an error value to its caller.\<close>

fun returnsError :: "(error + 'a) outcome option \<Rightarrow> bool" where
  "returnsError (Some (Return (Inl err))) = True"
| "returnsError _ = False"

subsection \<open>Example documents\<close>

text \<open>
  The documents of the examples below, each with the value \<^verbatim>\<open>encoding/json\<close>
  decodes it to.
\<close>

definition exampleDocs :: "(string \<times> unit json) list" where
  \<open>exampleDocs =
     [(''{"c":"d"}'', JObject [(''c'', JString ''d'')]),
      (''{"uuid":"x"}'', JObject [(''uuid'', JString ''x'')]),
      (''{"a":"c"}'', JObject [(''a'', JString ''c'')]),
      (''{"a":"d"}'', JObject [(''a'', JString ''d'')]),
      (''[{"a":"c"},{"a":"d"}]'',
         JArray [JObject [(''a'', JString ''c'')], JObject [(''a'', JString ''d'')]]),
      (''[{"a":"c"},"abc"]'', JArray [JObject [(''a'', JString ''c'')], JString ''abc'']),
      (''null'', JNull),
      (''"abc"'', JString ''abc'')]\<close>

text \<open>
  An input on which the word scanner fails: an array that opens with a string of 65536
  letters and then breaks the syntax at its last byte, \<^verbatim>\<open>["aa...a" x\<close>. The decoder
  reads on to the \<^verbatim>\<open>x\<close> before it reports the syntax error, so all of the input is
  buffered, and its first word is longer than the scanner's buffer.
\<close>

definition longWord :: string where
  "longWord = replicate 65536 (CHR ''a'')"

definition longInput :: string where
  \<open>longInput = ''["'' @ longWord @ ''" x''\<close>

text \<open>
  A string value that is longer than the truncation length, 1000 letters, its JSON
  text, and the table that decodes the text to the value.
\<close>

definition longString :: string where
  "longString = replicate 1000 (CHR ''a'')"

definition longStringText :: string where
  "longStringText = [CHR 0x22] @ longString @ [CHR 0x22]"

definition longStringDocs :: "(string \<times> unit json) list" where
  "longStringDocs = [(longStringText, JString longString)]"

text \<open>
  Follows the words of the specification of the truncation, which measures a rendering
  in characters: the number of characters of a UTF-8 text is the number of its bytes
  that do not continue a character (a continuation byte is one from \<open>0x80\<close> to
  \<open>0xBF\<close>).
\<close>

definition isContinuationByte :: "char \<Rightarrow> bool" where
  "isContinuationByte c = (128 \<le> (of_char c :: nat) \<and> (of_char c :: nat) < 192)"

definition charCount :: "string \<Rightarrow> nat" where
  "charCount s = length (filter (\<lambda>c. \<not> isContinuationByte c) s)"

text \<open>
  A text of 300 characters of two bytes each (the letter e with an acute accent, the
  bytes \<open>0xC3 0xA9\<close>), 600 bytes in all.
\<close>

definition twoByteText :: string where
  "twoByteText = concat (replicate 300 [CHR 0xC3, CHR 0xA9])"

section \<open>Properties\<close>

subsection \<open>The loop of \<^verbatim>\<open>readData\<close>, step by step\<close>

lemma readLoop_ProcessLoop:
  "readLoop L e (ProcessLoop r) data = readLoop L e (ForLoop (NewDecoder L r)) data"
  by (subst readLoop.simps) simp

lemma readLoop_no_more:
  "More L dec = (False, dec') \<Longrightarrow> readLoop L e (ForLoop dec) data = Some (Return (Inr data))"
  by (subst readLoop.simps) simp

lemma readLoop_Next:
  "More L dec = (True, dec') \<Longrightarrow> loopBody L e dec' data = Next dec'' data' \<Longrightarrow>
   readLoop L e (ForLoop dec) data = readLoop L e (ForLoop dec'') data'"
  by (subst readLoop.simps) simp

lemma readLoop_Restart:
  "More L dec = (True, dec') \<Longrightarrow> loopBody L e dec' data = Restart r data' \<Longrightarrow>
   readLoop L e (ForLoop dec) data = readLoop L e (ProcessLoop r) data'"
  by (subst readLoop.simps) simp

lemma readLoop_Done:
  "More L dec = (True, dec') \<Longrightarrow> loopBody L e dec' data = Done out \<Longrightarrow>
   readLoop L e (ForLoop dec) data = Some out"
  by (subst readLoop.simps) simp

lemma reaches_readLoop:
  "reaches L e r pc data \<Longrightarrow> readData L r e = readLoop L e pc data"
proof (induction rule: reaches.induct)
  case reach_start
  show ?case by (simp add: readData_def)
next
  case (reach_decoder r' data)
  then show ?case by (simp add: readLoop_ProcessLoop)
next
  case (reach_next dec data dec' dec'' data')
  then show ?case by (simp add: readLoop_Next)
next
  case (reach_restart dec data dec' r' data')
  then show ?case by (simp add: readLoop_Restart)
qed

lemma reaches_first: "reaches L e r (ForLoop (NewDecoder L r)) []"
  by (rule reaches.reach_decoder [OF reaches.reach_start])

lemma reaches_Done:
  assumes "reaches L e r (ForLoop dec) data" and "More L dec = (True, dec')"
    and "loopBody L e dec' data = Done out"
  shows "readData L r e = Some out"
  using assms by (simp add: reaches_readLoop readLoop_Done)

lemma explodeArray_objects:
  "\<forall>obj \<in> set raw. isObject obj \<and> Marshal L obj = Inr (tx obj) \<Longrightarrow>
   explodeArray L raw data = Inr (data @ map (\<lambda>obj. [tx obj]) raw)"
proof (induction raw arbitrary: data)
  case Nil
  show ?case by simp
next
  case (Cons obj raw)
  then obtain kvs where "obj = JObject kvs" by (cases obj) auto
  with Cons show ?case by simp
qed

lemma explodeArray_not_object:
  "\<exists>obj \<in> set raw. \<not> isObject obj \<Longrightarrow>
   \<forall>obj \<in> set raw. isObject obj \<longrightarrow> (\<exists>b. Marshal L obj = Inr b) \<Longrightarrow>
   explodeArray L raw data = Inl (ErrorString ''invalid piped data'')"
proof (induction raw arbitrary: data)
  case Nil
  then show ?case by simp
next
  case (Cons obj raw)
  show ?case
  proof (cases obj)
    case (JObject kvs)
    with Cons.prems obtain b where b: "Marshal L (JObject kvs) = Inr b" by auto
    from Cons.prems JObject have "\<exists>obj \<in> set raw. \<not> isObject obj" by auto
    moreover from Cons.prems have "\<forall>obj \<in> set raw. isObject obj \<longrightarrow> (\<exists>b. Marshal L obj = Inr b)"
      by auto
    ultimately show ?thesis using Cons.IH JObject b by simp
  qed simp_all
qed

lemma InputToCommands_error:
  "readData L r e = Some (Return (Inl err)) \<Longrightarrow>
   InputToCommands L r args e = Some (Return (Inl err))"
  by (simp add: InputToCommands_def)

lemma InputToCommands_fatal:
  "readData L r e = Some (Fatal msg) \<Longrightarrow> InputToCommands L r args e = Some (Fatal msg)"
  by (simp add: InputToCommands_def)

lemma mapOutcome_Return:
  "mapOutcome f xs = Return ys \<Longrightarrow>
   length ys = length xs \<and> (\<forall>i < length xs. f (xs ! i) = Return (ys ! i))"
proof (induction xs arbitrary: ys)
  case Nil
  then show ?case by simp
next
  case (Cons x xs)
  from Cons.prems obtain y ys' where y: "f x = Return y" and ys': "mapOutcome f xs = Return ys'"
    and eq: "ys = y # ys'"
    by (auto split: outcome.splits)
  from Cons.IH [OF ys'] have ih: "length ys' = length xs" "\<forall>i < length xs. f (xs ! i) = Return (ys' ! i)"
    by simp_all
  show ?case
  proof (intro conjI allI impI)
    show "length ys = length (x # xs)" using eq ih by simp
  next
    fix i assume "i < length (x # xs)"
    then show "f ((x # xs) ! i) = Return (ys ! i)"
      using eq y ih by (cases i) simp_all
  qed
qed

lemma Expand_no_dollar: "CHR ''$'' \<notin> set s \<Longrightarrow> Expand s mapping = Return s"
  by (induction s) auto

lemma special_not_brace: "isShellSpecialVar c \<Longrightarrow> c \<noteq> CHR ''{''"
  by (auto simp: isShellSpecialVar_def)

lemma getShellName_special: "isShellSpecialVar c \<Longrightarrow> getShellName (c # rest) = ([c], 1)"
  using special_not_brace [of c] by (simp add: getShellName_def)

lemma Expand_special:
  "isShellSpecialVar c \<Longrightarrow>
   Expand (CHR ''$'' # c # rest) mapping =
     (case mapping [c] of
        Return sub \<Rightarrow>
          (case Expand rest mapping of
             Return out \<Rightarrow> Return (sub @ out)
           | Panic msg \<Rightarrow> Panic msg
           | Fatal msg \<Rightarrow> Fatal msg)
      | Panic msg \<Rightarrow> Panic msg
      | Fatal msg \<Rightarrow> Fatal msg)"
  by (simp add: getShellName_special split: outcome.splits)

lemma digit_special: "d \<in> set ''0123456789'' \<Longrightarrow> isShellSpecialVar d"
  by (auto simp: isShellSpecialVar_def)

lemma transform_unbraced_path:
  assumes "d \<in> set ''0123456789''" and "CHR ''$'' \<notin> set path"
    and "dataLookup L data [d] = Return item"
  shows "transform L data (CHR ''$'' # d # CHR ''.'' # path) = Return (item @ CHR ''.'' # path)"
proof -
  have tail: "Expand (CHR ''.'' # path) (dataLookup L data) = Return (CHR ''.'' # path)"
    by (rule Expand_no_dollar) (use assms(2) in simp)
  have "Expand (CHR ''$'' # d # CHR ''.'' # path) (dataLookup L data) =
          (case dataLookup L data [d] of
             Return sub \<Rightarrow>
               (case Expand (CHR ''.'' # path) (dataLookup L data) of
                  Return out \<Rightarrow> Return (sub @ out)
                | Panic msg \<Rightarrow> Panic msg
                | Fatal msg \<Rightarrow> Fatal msg)
           | Panic msg \<Rightarrow> Panic msg
           | Fatal msg \<Rightarrow> Fatal msg)"
    by (rule Expand_special [OF digit_special [OF assms(1)]])
  also have "\<dots> = Return (item @ CHR ''.'' # path)"
    by (simp only: assms(3) tail outcome.case)
  finally show ?thesis
    by (simp only: transform_def)
qed

lemma dataLookup_out_of_range:
  assumes "parseTransform s = (pos, q)" and "pos > int (length data) \<or> pos < 0"
  shows "dataLookup L data s = Return ''<nil>''"
  using assms by (simp add: dataLookup_def)

lemma dataLookup_zero:
  assumes "parseTransform s = (0, q)"
  shows "dataLookup L data s = Panic ''runtime error: index out of range''"
  using assms by (simp add: dataLookup_def index_def)

subsection \<open>One pass through the loop\<close>

lemma loopBody_scan_error:
  assumes "Decode L dec' = ((JNull, derr), dec'')"
    and "derr = None \<or> derr = Some (SyntaxError msg)"
    and "ScanWords L (Buffered L dec'') = (ws, Some err)"
  shows "loopBody L e dec' data = Done (Fatal (''reading standard input: '' @ Error err))"
  using assms by (auto simp: loopBody_def typeSwitch_def)

lemma loopBody_explode_objects:
  assumes "Decode L dec' = ((JArray raw, None), dec'')"
    and "\<forall>obj \<in> set raw. isObject obj \<and> Marshal L obj = Inr (tx obj)"
  shows "loopBody L True dec' data = Next dec'' (data @ map (\<lambda>obj. [tx obj]) raw)"
  using assms(1) explodeArray_objects [OF assms(2)]
  by (simp add: loopBody_def typeSwitch_def)

lemma loopBody_explode_not_object:
  assumes "Decode L dec' = ((JArray raw, None), dec'')"
    and "\<exists>obj \<in> set raw. \<not> isObject obj"
    and "\<forall>obj \<in> set raw. isObject obj \<longrightarrow> (\<exists>b. Marshal L obj = Inr b)"
  shows "loopBody L True dec' data = Done (Return (Inl (ErrorString ''invalid piped data'')))"
  using assms(1) explodeArray_not_object [OF assms(2,3)]
  by (simp add: loopBody_def typeSwitch_def)

lemma loopBody_scalar:
  assumes "Decode L dec' = ((m, None), dec'')" and "isScalar m"
  shows "loopBody L e dec' data =
           Done (Return (Inl (ErrorString
             (''unexpected type ('' @ typeName m @ ''): '' @ truncatedValue L m))))"
  using assms by (cases m) (simp_all add: loopBody_def typeSwitch_def)

lemma loopBody_null:
  assumes "Decode L dec' = ((JNull, None), dec'')"
    and "ScanWords L (Buffered L dec'') = (ws, None)"
  shows "loopBody L e dec' data =
           Restart (MultiReader L [] (Source L dec'')) (data @ map (\<lambda>w. [w]) ws)"
  using assms by (simp add: loopBody_def typeSwitch_def)

lemma tableLib_NewDecoder: "NewDecoder (tableLib docs) r = r"
  by (simp add: tableLib_def)

lemma tableLib_reaches_first: "reaches (tableLib docs) e r (ForLoop r) []"
  using reaches_first [of "tableLib docs" e r] by (simp only: tableLib_NewDecoder)


lemma splitWords_word:
  "\<forall>c \<in> set w. \<not> isWordSpace c \<Longrightarrow> splitWords cur (w @ rest) = splitWords (cur @ w) rest"
  by (induction w arbitrary: cur) simp_all

lemma length_longWord: "length longWord = 65536"
  unfolding longWord_def by (rule length_replicate)

lemma set_longWord: "set longWord \<subseteq> {CHR ''a''}"
proof -
  have "set (replicate n x) \<subseteq> {x}" for n and x :: char
    by (induction n) auto
  then show ?thesis
    unfolding longWord_def .
qed

lemma longInput_More: "More (tableLib docs) longInput = (True, longInput)"
  by (simp add: tableLib_def tableMore_def longInput_def isJSONSpace_def)

lemma longInput_no_doc:
  \<open>find (\<lambda>(text, v). take (length text) longInput = text) exampleDocs = None\<close>
  by (simp add: longInput_def exampleDocs_def)

lemma longInput_Decode:
  "Decode (tableLib exampleDocs) longInput
     = ((JNull, Some (SyntaxError ''invalid character'')), longInput)"
proof -
  have "dropWhile isJSONSpace longInput = longInput"
    by (simp add: longInput_def isJSONSpace_def)
  moreover have "longInput \<noteq> []"
    by (simp add: longInput_def)
  ultimately show ?thesis
    by (simp add: tableLib_def tableDecode_def longInput_no_doc)
qed

lemma longInput_words:
  \<open>splitWords [] longInput = [''["'' @ longWord @ [CHR 0x22], ''x'']\<close>
proof -
  let ?w = \<open>''["'' @ longWord @ [CHR 0x22]\<close>
  have w: "\<forall>c \<in> set ?w. \<not> isWordSpace c"
    using set_longWord by (auto simp: isWordSpace_def)
  have "longInput = ?w @ '' x''" by (simp add: longInput_def)
  then have "splitWords [] longInput = splitWords ([] @ ?w) '' x''"
    using splitWords_word [OF w, of "[]" "'' x''"] by simp
  also have "\<dots> = [?w, ''x'']" by (simp add: isWordSpace_def)
  finally show ?thesis .
qed

lemma longInput_ScanWords:
  "ScanWords (tableLib docs) (Buffered (tableLib docs) longInput)
     = ([], Some (OtherError ''bufio.Scanner: token too long''))"
  by (simp add: tableLib_def scanWords_def longInput_words maxScanTokenSize_def length_longWord)

subsection \<open>Positions out of range (C1)\<close>

text \<open>
  \<^verbatim>\<open>dataLookup\<close> guards the index with \<^verbatim>\<open>pos > len(data) || pos < 0\<close>. A position
  above the number of fields or below zero gives \<^verbatim>\<open><nil>\<close>
  (\<open>dataLookup_out_of_range\<close>); the position zero passes the guard, and
  \<^verbatim>\<open>data[pos-1]\<close> panics (\<open>dataLookup_zero\<close>).
\<close>

text \<open>
  Claim C1: for every record and every marker whose reference parses to a position
  \<open>p\<close> with \<open>p < 1\<close> or \<open>p\<close> above the record's field count, the expansion puts the
  text \<^verbatim>\<open><nil>\<close> in the marker's place and never fails. The code breaks this at
  \<open>p = 0\<close>: for the record \<^verbatim>\<open>{"c":"d"}\<close> the marker \<^verbatim>\<open>$0\<close> makes \<^verbatim>\<open>dataLookup\<close>,
  \<^verbatim>\<open>transform\<close> and \<^verbatim>\<open>InputToCommands\<close> panic with an index out of range.
\<close>

theorem position_zero_panics:
  \<open>dataLookup (tableLib exampleDocs) [''{"c":"d"}''] ''0'' = Panic ''runtime error: index out of range''
   \<and> transform (tableLib exampleDocs) [''{"c":"d"}''] ''$0'' = Panic ''runtime error: index out of range''
   \<and> InputToCommands (tableLib exampleDocs) ''{"c":"d"}'' [''$0''] False
        = Some (Panic ''runtime error: index out of range'')\<close>
  by code_simp

subsection \<open>Markers without braces (C2)\<close>

text \<open>
  \<^verbatim>\<open>os.Expand\<close> takes a digit after \<^verbatim>\<open>$\<close> as a name of one byte, so the text after
  the digit is copied as it is (\<open>transform_unbraced_path\<close>).
\<close>

text \<open>
  Claim C2: a marker \<^verbatim>\<open>$N.path\<close> without braces is replaced by the result of
  resolving \<open>path\<close> against the record's \<open>N\<close>-th field, as the marker \<^verbatim>\<open>${N.path}\<close> is.
  The code does not do this: against the record \<^verbatim>\<open>{"uuid":"x"}\<close> the template
  \<^verbatim>\<open>$1.uuid\<close> expands to the whole field followed by \<^verbatim>\<open>.uuid\<close>, while
  \<^verbatim>\<open>${1.uuid}\<close> expands to \<^verbatim>\<open>x\<close>.
\<close>

theorem unbraced_path_not_resolved:
  \<open>transform (tableLib exampleDocs) [''{"uuid":"x"}''] ''$1.uuid'' = Return ''{"uuid":"x"}.uuid''
   \<and> transform (tableLib exampleDocs) [''{"uuid":"x"}''] ''${1.uuid}'' = Return ''x''\<close>
  by code_simp

subsection \<open>An error of the word scanner (C3)\<close>

text \<open>
  Claim C3, as amended: when the scanner of the fallback path reports an error,
  \<^verbatim>\<open>readData\<close> does not return: it logs \<^verbatim>\<open>reading standard input: \<close> followed by the
  error and ends the process through \<^verbatim>\<open>log.Fatalf\<close>, and so does \<^verbatim>\<open>InputToCommands\<close>;
  no error value comes back to the caller. The fallback path is taken when the decoded
  value is \<^verbatim>\<open>nil\<close>, after a syntax error or after the JSON value \<^verbatim>\<open>null\<close>.
\<close>

theorem scan_error_ends_process:
  assumes "reaches L e r (ForLoop dec) data"
    and "More L dec = (True, dec')"
    and "Decode L dec' = ((JNull, derr), dec'')"
    and "derr = None \<or> derr = Some (SyntaxError msg)"
    and "ScanWords L (Buffered L dec'') = (ws, Some err)"
  shows "readData L r e = Some (Fatal (''reading standard input: '' @ Error err))
         \<and> InputToCommands L r args e = Some (Fatal (''reading standard input: '' @ Error err))"
proof -
  have "readData L r e = Some (Fatal (''reading standard input: '' @ Error err))"
    by (rule reaches_Done [OF assms(1,2) loopBody_scan_error [OF assms(3,4,5)]])
  then show ?thesis by (simp add: InputToCommands_fatal)
qed

text \<open>The amended claim on the input \<^verbatim>\<open>["aa...a" x\<close> with 65536 letters.\<close>

theorem scan_error_ends_process_witness:
  \<open>reaches (tableLib exampleDocs) False longInput (ForLoop longInput) []
   \<and> More (tableLib exampleDocs) longInput = (True, longInput)
   \<and> Decode (tableLib exampleDocs) longInput
        = ((JNull, Some (SyntaxError ''invalid character'')), longInput)
   \<and> ScanWords (tableLib exampleDocs) (Buffered (tableLib exampleDocs) longInput)
        = ([], Some (OtherError ''bufio.Scanner: token too long''))
   \<and> readData (tableLib exampleDocs) longInput False
        = Some (Fatal ''reading standard input: bufio.Scanner: token too long'')
   \<and> InputToCommands (tableLib exampleDocs) longInput [''a b $1''] False
        = Some (Fatal ''reading standard input: bufio.Scanner: token too long'')\<close>
proof -
  have h4: "Some (SyntaxError ''invalid character'') = None
            \<or> Some (SyntaxError ''invalid character'') = Some (SyntaxError ''invalid character'')"
    by simp
  from scan_error_ends_process
         [OF tableLib_reaches_first longInput_More longInput_Decode h4 longInput_ScanWords,
          of False "[''a b $1'']"]
       tableLib_reaches_first [of exampleDocs False longInput]
       longInput_More longInput_Decode longInput_ScanWords
  show ?thesis by simp
qed

text \<open>
  Claim C3 as first stated says that the scanner's error is returned to the caller and
  that the process is not ended. On the same input the outcome is the end of the
  process, and it is not a returned error.
\<close>

theorem scan_error_counterexample:
  \<open>readData (tableLib exampleDocs) longInput False
     = Some (Fatal ''reading standard input: bufio.Scanner: token too long'')
   \<and> \<not> returnsError (readData (tableLib exampleDocs) longInput False)\<close>
proof -
  have "readData (tableLib exampleDocs) longInput False
          = Some (Fatal (''reading standard input: ''
              @ Error (OtherError ''bufio.Scanner: token too long'')))"
    by (rule reaches_Done
          [OF tableLib_reaches_first longInput_More
              loopBody_scan_error [OF longInput_Decode _ longInput_ScanWords]])
       simp
  then show ?thesis by simp
qed

subsection \<open>Exploding an array (C4)\<close>

text \<open>
  Claim C4: when a pass through the loop decodes a JSON array and \<open>explodeArrays\<close> is
  true, then: if every element is a JSON object, every element becomes a row of its own
  with one field, the element's compact JSON text (\<open>tx obj\<close> is the text
  \<^verbatim>\<open>json.Marshal\<close> gives for \<open>obj\<close>), and the run goes on with these rows appended; if
  nothing follows the array, they are what \<^verbatim>\<open>readData\<close> returns. If some element is
  not an object, \<^verbatim>\<open>readData\<close> returns the error \<^verbatim>\<open>invalid piped data\<close> and no rows,
  and \<^verbatim>\<open>InputToCommands\<close> returns that error and no matrix. (\<^verbatim>\<open>json.Marshal\<close> is a
  parameter of the model, so the second part says that it does not fail on the objects
  of the array; on decoded values it never does.)
\<close>

theorem explode_array:
  assumes "reaches L True r (ForLoop dec) data"
    and "More L dec = (True, dec')"
    and "Decode L dec' = ((JArray raw, None), dec'')"
  shows "((\<forall>obj \<in> set raw. isObject obj \<and> Marshal L obj = Inr (tx obj)) \<longrightarrow>
            reaches L True r (ForLoop dec'') (data @ map (\<lambda>obj. [tx obj]) raw)
            \<and> (\<not> fst (More L dec'') \<longrightarrow>
                 readData L r True = Some (Return (Inr (data @ map (\<lambda>obj. [tx obj]) raw)))))
         \<and> ((\<exists>obj \<in> set raw. \<not> isObject obj)
              \<and> (\<forall>obj \<in> set raw. isObject obj \<longrightarrow> (\<exists>b. Marshal L obj = Inr b)) \<longrightarrow>
            readData L r True = Some (Return (Inl (ErrorString ''invalid piped data'')))
            \<and> InputToCommands L r args True
                = Some (Return (Inl (ErrorString ''invalid piped data''))))"
proof (intro conjI impI)
  assume objs: "\<forall>obj \<in> set raw. isObject obj \<and> Marshal L obj = Inr (tx obj)"
  show reach: "reaches L True r (ForLoop dec'') (data @ map (\<lambda>obj. [tx obj]) raw)"
    by (rule reaches.reach_next [OF assms(1,2) loopBody_explode_objects [OF assms(3) objs]])
  assume "\<not> fst (More L dec'')"
  then obtain d where "More L dec'' = (False, d)" by (cases "More L dec''") simp
  then show "readData L r True = Some (Return (Inr (data @ map (\<lambda>obj. [tx obj]) raw)))"
    using reach by (simp add: reaches_readLoop readLoop_no_more)
next
  assume bad: "(\<exists>obj \<in> set raw. \<not> isObject obj)
     \<and> (\<forall>obj \<in> set raw. isObject obj \<longrightarrow> (\<exists>b. Marshal L obj = Inr b))"
  then have body: "loopBody L True dec' data = Done (Return (Inl (ErrorString ''invalid piped data'')))"
    using loopBody_explode_not_object [OF assms(3)] by blast
  show rd: "readData L r True = Some (Return (Inl (ErrorString ''invalid piped data'')))"
    by (rule reaches_Done [OF assms(1,2) body])
  show "InputToCommands L r args True = Some (Return (Inl (ErrorString ''invalid piped data'')))"
    by (rule InputToCommands_error [OF rd])
qed

text \<open>
  Claim C4 on the inputs \<^verbatim>\<open>[{"a":"c"},{"a":"d"}]\<close>, an array of objects, and
  \<^verbatim>\<open>[{"a":"c"},"abc"]\<close>, whose second element is a string.
\<close>

theorem explode_array_witness:
  \<open>reaches (tableLib exampleDocs) True ''[{"a":"c"},{"a":"d"}]''
       (ForLoop []) [[''{"a":"c"}''], [''{"a":"d"}'']]
   \<and> readData (tableLib exampleDocs) ''[{"a":"c"},{"a":"d"}]'' True
        = Some (Return (Inr [[''{"a":"c"}''], [''{"a":"d"}'']]))
   \<and> readData (tableLib exampleDocs) ''[{"a":"c"},"abc"]'' True
        = Some (Return (Inl (ErrorString ''invalid piped data'')))
   \<and> InputToCommands (tableLib exampleDocs) ''[{"a":"c"},"abc"]'' [''a b $1''] True
        = Some (Return (Inl (ErrorString ''invalid piped data'')))\<close>
proof -
  let ?L = "tableLib exampleDocs"
  let ?ac = \<open>JObject [(''a'', JString ''c'')] :: unit json\<close>
  let ?ad = \<open>JObject [(''a'', JString ''d'')] :: unit json\<close>
  let ?tx = \<open>\<lambda>obj :: unit json. if obj = ?ac then ''{"a":"c"}'' else ''{"a":"d"}''\<close>
  let ?good = \<open>''[{"a":"c"},{"a":"d"}]''\<close>
  let ?bad = \<open>''[{"a":"c"},"abc"]''\<close>
  have g1: "reaches ?L True ?good (ForLoop ?good) []" by (rule tableLib_reaches_first)
  have g2: "More ?L ?good = (True, ?good)" by code_simp
  have g3: "Decode ?L ?good = ((JArray [?ac, ?ad], None), [])" by code_simp
  have g4: "\<forall>obj \<in> set [?ac, ?ad]. isObject obj \<and> Marshal ?L obj = Inr (?tx obj)"
    by (simp add: tableLib_def tableMarshal_def exampleDocs_def)
  have g5: "\<not> fst (More ?L [])" by code_simp
  have b1: "reaches ?L True ?bad (ForLoop ?bad) []" by (rule tableLib_reaches_first)
  have b2: "More ?L ?bad = (True, ?bad)" by code_simp
  have b3: "Decode ?L ?bad = ((JArray [?ac, JString ''abc''], None), [])" by code_simp
  have b4: "(\<exists>obj \<in> set [?ac, JString ''abc'']. \<not> isObject obj)
            \<and> (\<forall>obj \<in> set [?ac, JString ''abc'']. isObject obj \<longrightarrow> (\<exists>b. Marshal ?L obj = Inr b))"
    by (simp add: tableLib_def tableMarshal_def exampleDocs_def)
  from explode_array [OF g1 g2 g3, of ?tx] g4 g5
       explode_array [OF b1 b2 b3, of _ "[''a b $1'']"] b4
  show ?thesis by simp
qed

subsection \<open>No piped input (C5)\<close>

text \<open>
  Claim C5: for every list of templates and either setting of \<open>explodeArrays\<close>, when
  \<^verbatim>\<open>readData\<close> returns no rows, \<^verbatim>\<open>InputToCommands\<close> returns the matrix whose only row
  is the list of templates, unchanged. This is so in particular when the first
  \<^verbatim>\<open>dec.More()\<close> is false, as it is on an empty stream.
\<close>

theorem empty_stream_passthrough:
  "(readData L r e = Some (Return (Inr [])) \<longrightarrow>
      InputToCommands L r args e = Some (Return (Inr [args])))
   \<and> (\<not> fst (More L (NewDecoder L r)) \<longrightarrow>
      readData L r e = Some (Return (Inr []))
      \<and> InputToCommands L r args e = Some (Return (Inr [args])))"
proof (intro conjI impI)
  assume "readData L r e = Some (Return (Inr []))"
  then show "InputToCommands L r args e = Some (Return (Inr [args]))"
    by (simp add: InputToCommands_def)
next
  assume "\<not> fst (More L (NewDecoder L r))"
  then obtain d where "More L (NewDecoder L r) = (False, d)"
    by (cases "More L (NewDecoder L r)") simp
  then show rd: "readData L r e = Some (Return (Inr []))"
    by (simp add: readData_def readLoop_ProcessLoop readLoop_no_more)
  then show "InputToCommands L r args e = Some (Return (Inr [args]))"
    by (simp add: InputToCommands_def)
qed

text \<open>Claim C5 on the empty input with the template \<^verbatim>\<open>a b $1\<close>.\<close>

theorem empty_stream_passthrough_witness:
  \<open>\<not> fst (More (tableLib exampleDocs) (NewDecoder (tableLib exampleDocs) ''''))
   \<and> readData (tableLib exampleDocs) '''' False = Some (Return (Inr []))
   \<and> InputToCommands (tableLib exampleDocs) '''' [''a b $1''] False
        = Some (Return (Inr [[''a b $1'']]))\<close>
proof -
  have h: "\<not> fst (More (tableLib exampleDocs) (NewDecoder (tableLib exampleDocs) ''''))"
    by code_simp
  from empty_stream_passthrough [of "tableLib exampleDocs" "''''" False "[''a b $1'']"] h
  show ?thesis by simp
qed

subsection \<open>Queries that find nothing (C6)\<close>

text \<open>
  Claim C6: for every field text and every path, \<^verbatim>\<open>jsonQuery\<close> returns the text
  \<^verbatim>\<open><nil>\<close> when the field does not parse as JSON, and also when it parses and the
  path leads to no value in it (the search ends in the \<^verbatim>\<open>nil\<close> container, or in a
  container that holds \<^verbatim>\<open>nil\<close>). In both cases the result is a string, not an
  error: \<^verbatim>\<open>jsonQuery\<close> has no other kind of result.
\<close>

theorem jsonQuery_nil:
  "(ParseJSON L serializedValue = None \<longrightarrow> jsonQuery L serializedValue path = ''<nil>'')
   \<and> (\<forall>parsed. ParseJSON L serializedValue = Some parsed
          \<and> Data (Path L parsed path) = JNull \<longrightarrow>
         jsonQuery L serializedValue path = ''<nil>'')"
  by (simp add: jsonQuery_def)

text \<open>
  Claim C6 on the field \<^verbatim>\<open>a\<close>, which is not JSON, and on the field \<^verbatim>\<open>{"c":"d"}\<close> with
  the path \<^verbatim>\<open>zzz\<close>.
\<close>

theorem jsonQuery_nil_witness:
  \<open>ParseJSON (tableLib exampleDocs) ''a'' = None
   \<and> jsonQuery (tableLib exampleDocs) ''a'' ''z'' = ''<nil>''
   \<and> ParseJSON (tableLib exampleDocs) ''{"c":"d"}'' = Some (JObject [(''c'', JString ''d'')])
   \<and> Data (Path (tableLib exampleDocs) (JObject [(''c'', JString ''d'')]) ''zzz'') = JNull
   \<and> jsonQuery (tableLib exampleDocs) ''{"c":"d"}'' ''zzz'' = ''<nil>''\<close>
proof -
  let ?L = "tableLib exampleDocs"
  have h1: "ParseJSON ?L ''a'' = None" by code_simp
  have h2: \<open>ParseJSON ?L ''{"c":"d"}'' = Some (JObject [(''c'', JString ''d'')])\<close> by code_simp
  have h3: "Data (Path ?L (JObject [(''c'', JString ''d'')]) ''zzz'') = JNull" by code_simp
  from jsonQuery_nil [of ?L "''a''" "''z''"] h1
       jsonQuery_nil [of ?L \<open>''{"c":"d"}''\<close> "''zzz''"] h2 h3
  show ?thesis by simp
qed

subsection \<open>A scalar at the top level (C7)\<close>

lemma longString_length: "length longString = 1000"
  unfolding longString_def by (rule length_replicate)

lemma longString_take: "take 512 longString = replicate 512 (CHR ''a'')"
proof -
  have "take 512 (replicate 1000 (CHR ''a'')) = replicate (min 512 1000) (CHR ''a'')"
    by (rule take_replicate)
  also have "min (512 :: nat) 1000 = 512"
    by simp
  finally show ?thesis
    unfolding longString_def .
qed

lemma longStringText_More:
  "More (tableLib docs) longStringText = (True, longStringText)"
  by (simp add: tableLib_def tableMore_def longStringText_def isJSONSpace_def)

lemma longStringText_Decode:
  "Decode (tableLib longStringDocs) longStringText = ((JString longString, None), [])"
proof -
  have "dropWhile isJSONSpace longStringText = longStringText"
    by (simp add: longStringText_def isJSONSpace_def)
  moreover have "longStringText \<noteq> []"
    by (simp add: longStringText_def)
  ultimately show ?thesis
    by (simp add: tableLib_def tableDecode_def longStringDocs_def)
qed

text \<open>
  Claim C7: when a pass through the loop decodes, without an error, a string, a number
  or a boolean, \<^verbatim>\<open>readData\<close> and \<^verbatim>\<open>InputToCommands\<close> return the error whose message
  is \<^verbatim>\<open>unexpected type (T): \<close>, where \<^verbatim>\<open>T\<close> is the value's Go type, followed by the
  truncated rendering of the value: the rendering itself when it has at most 512 bytes,
  and otherwise its first 512 bytes, quoted, followed by three dots, a new line and
  \<^verbatim>\<open>[Value truncated]\<close>.
\<close>

theorem scalar_unexpected_type:
  assumes "reaches L e r (ForLoop dec) data"
    and "More L dec = (True, dec')"
    and "Decode L dec' = ((m, None), dec'')"
    and "isScalar m"
  shows "readData L r e = Some (Return (Inl (ErrorString
           (''unexpected type ('' @ typeName m @ ''): ''
            @ (if length (Sprint L m) > 512
               then Quote L (take 512 (Sprint L m)) @ ''...'' @ [CHR 0x0A] @ ''[Value truncated]''
               else Sprint L m)))))
         \<and> InputToCommands L r args e = Some (Return (Inl (ErrorString
           (''unexpected type ('' @ typeName m @ ''): ''
            @ (if length (Sprint L m) > 512
               then Quote L (take 512 (Sprint L m)) @ ''...'' @ [CHR 0x0A] @ ''[Value truncated]''
               else Sprint L m)))))"
proof -
  have tv: "truncatedValue L m =
              (if length (Sprint L m) > 512
               then Quote L (take 512 (Sprint L m)) @ ''...'' @ [CHR 0x0A] @ ''[Value truncated]''
               else Sprint L m)"
    by (simp add: truncatedValue_def truncationLength_def truncatedSuffix_def Let_def)
  have "readData L r e = Some (Return (Inl (ErrorString
           (''unexpected type ('' @ typeName m @ ''): '' @ truncatedValue L m))))"
    by (rule reaches_Done [OF assms(1,2) loopBody_scalar [OF assms(3,4)]])
  then have rd: "readData L r e = Some (Return (Inl (ErrorString
           (''unexpected type ('' @ typeName m @ ''): ''
            @ (if length (Sprint L m) > 512
               then Quote L (take 512 (Sprint L m)) @ ''...'' @ [CHR 0x0A] @ ''[Value truncated]''
               else Sprint L m)))))"
    by (simp only: tv)
  show ?thesis
    by (rule conjI [OF rd InputToCommands_error [OF rd]])
qed

text \<open>
  Claim C7 on two inputs. On \<^verbatim>\<open>{"c":"d"} "abc"\<close> the second pass through the loop
  decodes a string of three bytes, and the message carries it whole. On the JSON string
  of 1000 letters \<^verbatim>\<open>a\<close> the message carries the first 512 letters, quoted, and the
  mark of the truncation.
\<close>

theorem scalar_unexpected_type_witness:
  \<open>reaches (tableLib exampleDocs) False ''{"c":"d"} "abc"'' (ForLoop '' "abc"'') [[''{"c":"d"}'']]
   \<and> More (tableLib exampleDocs) '' "abc"'' = (True, ''"abc"'')
   \<and> Decode (tableLib exampleDocs) ''"abc"'' = ((JString ''abc'', None), [])
   \<and> isScalar (JString ''abc'' :: unit json)
   \<and> readData (tableLib exampleDocs) ''{"c":"d"} "abc"'' False
        = Some (Return (Inl (ErrorString ''unexpected type (string): abc'')))
   \<and> InputToCommands (tableLib exampleDocs) ''{"c":"d"} "abc"'' [''a b $1''] False
        = Some (Return (Inl (ErrorString ''unexpected type (string): abc'')))
   \<and> reaches (tableLib longStringDocs) False longStringText (ForLoop longStringText) []
   \<and> More (tableLib longStringDocs) longStringText = (True, longStringText)
   \<and> Decode (tableLib longStringDocs) longStringText = ((JString longString, None), [])
   \<and> length (Sprint (tableLib longStringDocs) (JString longString)) = 1000
   \<and> readData (tableLib longStringDocs) longStringText False
        = Some (Return (Inl (ErrorString
            (''unexpected type (string): '' @ [CHR 0x22] @ replicate 512 (CHR ''a'') @ [CHR 0x22]
             @ ''...'' @ [CHR 0x0A] @ ''[Value truncated]''))))
   \<and> InputToCommands (tableLib longStringDocs) longStringText [''a b $1''] False
        = Some (Return (Inl (ErrorString
            (''unexpected type (string): '' @ [CHR 0x22] @ replicate 512 (CHR ''a'') @ [CHR 0x22]
             @ ''...'' @ [CHR 0x0A] @ ''[Value truncated]''))))\<close>
proof -
  let ?L = "tableLib exampleDocs"
  let ?r = \<open>''{"c":"d"} "abc"''\<close>
  have s1: "More ?L ?r = (True, ?r)" by code_simp
  have s2: \<open>loopBody ?L False ?r [] = Next '' "abc"'' [[''{"c":"d"}'']]\<close> by code_simp
  have h1: \<open>reaches ?L False ?r (ForLoop '' "abc"'') [[''{"c":"d"}'']]\<close>
    by (rule reaches.reach_next [OF tableLib_reaches_first s1 s2])
  have h2: \<open>More ?L '' "abc"'' = (True, ''"abc"'')\<close> by code_simp
  have h3: \<open>Decode ?L ''"abc"'' = ((JString ''abc'', None), [])\<close> by code_simp
  have h4: "isScalar (JString ''abc'' :: unit json)" by simp
  have short: \<open>readData ?L ?r False
                  = Some (Return (Inl (ErrorString ''unexpected type (string): abc'')))
                \<and> InputToCommands ?L ?r [''a b $1''] False
                  = Some (Return (Inl (ErrorString ''unexpected type (string): abc'')))\<close>
    using scalar_unexpected_type [OF h1 h2 h3 h4, of "[''a b $1'']"] by simp
  let ?M = "tableLib longStringDocs"
  have l1: "reaches ?M False longStringText (ForLoop longStringText) []"
    by (rule tableLib_reaches_first)
  have l4: "isScalar (JString longString :: unit json)" by simp
  have len: "length (Sprint ?M (JString longString)) = 1000"
    by (simp add: longString_length)
  have q: "Quote ?M s = [CHR 0x22] @ s @ [CHR 0x22]" for s
    by (simp add: tableLib_def)
  have long: "readData ?M longStringText False
                = Some (Return (Inl (ErrorString
                    (''unexpected type (string): '' @ [CHR 0x22] @ replicate 512 (CHR ''a'')
                     @ [CHR 0x22] @ ''...'' @ [CHR 0x0A] @ ''[Value truncated]''))))
              \<and> InputToCommands ?M longStringText [''a b $1''] False
                = Some (Return (Inl (ErrorString
                    (''unexpected type (string): '' @ [CHR 0x22] @ replicate 512 (CHR ''a'')
                     @ [CHR 0x22] @ ''...'' @ [CHR 0x0A] @ ''[Value truncated]''))))"
    using scalar_unexpected_type
            [OF l1 longStringText_More longStringText_Decode l4, of "[''a b $1'']"]
    by (simp add: longString_length longString_take q)
  from short long h1 h2 h3 h4 l1 longStringText_More [of longStringDocs]
       longStringText_Decode len
  show ?thesis by blast
qed

subsection \<open>Truncation (C8)\<close>

text \<open>
  Claim C8, as amended: for every value, when its rendering is at most 512 bytes long,
  \<^verbatim>\<open>truncatedValue\<close> returns the rendering unchanged; when it is longer than 512
  bytes, \<^verbatim>\<open>truncatedValue\<close> returns the first 512 bytes, quoted, followed by three
  dots, a new line and \<^verbatim>\<open>[Value truncated]\<close>. The measure is the number of bytes, as
  \<^verbatim>\<open>len(s)\<close> and \<^verbatim>\<open>s[:truncationLength]\<close> count, not the number of characters.
\<close>

theorem truncatedValue_spec:
  "(length (Sprint L v) \<le> 512 \<longrightarrow> truncatedValue L v = Sprint L v)
   \<and> (length (Sprint L v) > 512 \<longrightarrow>
        truncatedValue L v
          = Quote L (take 512 (Sprint L v)) @ ''...'' @ [CHR 0x0A] @ ''[Value truncated]'')"
  by (simp add: truncatedValue_def truncationLength_def truncatedSuffix_def Let_def)

text \<open>
  The amended claim on the string \<^verbatim>\<open>abc\<close> and on the string of 1000 letters \<^verbatim>\<open>a\<close>.
\<close>

theorem truncatedValue_spec_witness:
  \<open>length (Sprint (tableLib exampleDocs) (JString ''abc'')) \<le> 512
   \<and> truncatedValue (tableLib exampleDocs) (JString ''abc'') = ''abc''
   \<and> length (Sprint (tableLib exampleDocs) (JString (replicate 1000 (CHR ''a'')))) > 512
   \<and> truncatedValue (tableLib exampleDocs) (JString (replicate 1000 (CHR ''a'')))
        = [CHR 0x22] @ replicate 512 (CHR ''a'') @ [CHR 0x22]
          @ ''...'' @ [CHR 0x0A] @ ''[Value truncated]''\<close>
proof -
  let ?L = "tableLib exampleDocs"
  have q: "Quote ?L s = [CHR 0x22] @ s @ [CHR 0x22]" for s
    by (simp add: tableLib_def)
  from truncatedValue_spec [of ?L "JString ''abc''"]
       truncatedValue_spec [of ?L "JString (replicate 1000 (CHR ''a''))"] q
  show ?thesis by simp
qed

lemma length_two_byte: "k = 2 * n \<Longrightarrow> length (concat (replicate n [a, b])) = k"
  by (induction n arbitrary: k) auto

lemma charCount_two_byte: "charCount (concat (replicate n [CHR 0xC3, CHR 0xA9])) = n"
  by (induction n) (simp_all add: charCount_def isContinuationByte_def)

lemma twoByteText_length: "length twoByteText = 600"
  unfolding twoByteText_def by (rule length_two_byte) simp

lemma twoByteText_charCount: "charCount twoByteText = 300"
  unfolding twoByteText_def by (rule charCount_two_byte)

text \<open>
  Claim C8 as first stated measures the rendering in characters. A string of 300
  characters of two bytes each has at most 512 characters, and yet it is not returned
  unchanged: it has 600 bytes, and \<^verbatim>\<open>truncatedValue\<close> cuts it after 512 of them.
\<close>

theorem truncatedValue_characters_counterexample:
  "charCount (Sprint (tableLib exampleDocs) (JString twoByteText)) = 300
   \<and> (300 :: nat) \<le> 512
   \<and> length (Sprint (tableLib exampleDocs) (JString twoByteText)) = 600
   \<and> truncatedValue (tableLib exampleDocs) (JString twoByteText)
        = [CHR 0x22] @ take 512 twoByteText @ [CHR 0x22]
          @ ''...'' @ [CHR 0x0A] @ ''[Value truncated]''
   \<and> truncatedValue (tableLib exampleDocs) (JString twoByteText)
        \<noteq> Sprint (tableLib exampleDocs) (JString twoByteText)"
proof -
  let ?L = "tableLib exampleDocs"
  have q: "Quote ?L s = [CHR 0x22] @ s @ [CHR 0x22]" for s
    by (simp add: tableLib_def)
  have tv: "truncatedValue ?L (JString twoByteText)
              = [CHR 0x22] @ take 512 twoByteText @ [CHR 0x22]
                @ ''...'' @ [CHR 0x0A] @ ''[Value truncated]''"
    by (simp add: truncatedValue_def truncationLength_def truncatedSuffix_def Let_def
          twoByteText_length q)
  have "length (truncatedValue ?L (JString twoByteText)) = 535"
    by (simp add: tv twoByteText_length)
  then have ne: "truncatedValue ?L (JString twoByteText) \<noteq> Sprint ?L (JString twoByteText)"
    using twoByteText_length by auto
  show ?thesis
    using tv ne by (simp add: twoByteText_length twoByteText_charCount)
qed

subsection \<open>The shape of the matrix (C9)\<close>

text \<open>
  Claim C9: when \<^verbatim>\<open>readData\<close> returns rows, at least one, the matrix
  \<^verbatim>\<open>InputToCommands\<close> returns has one row for each of them, in their order, and each
  row has one entry for each template, in the templates' order: the entry \<open>j\<close> of the
  row \<open>i\<close> is the expansion of the template \<open>j\<close> against the record \<open>i\<close>.
\<close>

theorem matrix_shape:
  assumes "readData L r e = Some (Return (Inr data))"
    and "data \<noteq> []"
    and "InputToCommands L r args e = Some (Return (Inr cmds))"
  shows "length cmds = length data
         \<and> (\<forall>i < length data.
              length (cmds ! i) = length args
              \<and> (\<forall>j < length args. transform L (data ! i) (args ! j) = Return (cmds ! i ! j)))"
proof -
  from assms have build: "buildCmds L data args = Return cmds"
    by (auto simp: InputToCommands_def split: outcome.splits)
  then have rows: "length cmds = length data"
    and row: "\<forall>i < length data.
                mapOutcome (\<lambda>arg. transform L (data ! i) arg) args = Return (cmds ! i)"
    using mapOutcome_Return [of "\<lambda>row. mapOutcome (\<lambda>arg. transform L row arg) args" data cmds]
    by (simp_all add: buildCmds_def)
  show ?thesis
  proof (intro conjI allI impI)
    show "length cmds = length data" by (rule rows)
  next
    fix i assume "i < length data"
    with row have "mapOutcome (\<lambda>arg. transform L (data ! i) arg) args = Return (cmds ! i)" by simp
    from mapOutcome_Return [OF this]
    show "length (cmds ! i) = length args"
      and "\<And>j. j < length args \<Longrightarrow> transform L (data ! i) (args ! j) = Return (cmds ! i ! j)"
      by simp_all
  qed
qed

text \<open>
  Claim C9 on the input \<^verbatim>\<open>c d\<close> with three templates: two rows of three entries, and
  the first entry of the second row is the first template expanded against the second
  record.
\<close>

theorem matrix_shape_witness:
  \<open>readData (tableLib exampleDocs) ''c d'' False = Some (Return (Inr [[''c''], [''d'']]))
   \<and> [[''c''], [''d'']] \<noteq> ([] :: string list list)
   \<and> InputToCommands (tableLib exampleDocs) ''c d'' [''a b $1'', ''${1}'', ''x''] False
        = Some (Return (Inr [[''a b c'', ''c'', ''x''], [''a b d'', ''d'', ''x'']]))
   \<and> length [[''a b c'', ''c'', ''x''], [''a b d'', ''d'', ''x'']] = length [[''c''], [''d'']]
   \<and> length ([[''a b c'', ''c'', ''x''], [''a b d'', ''d'', ''x'']] ! 1)
        = length [''a b $1'', ''${1}'', ''x'']
   \<and> transform (tableLib exampleDocs) ([[''c''], [''d'']] ! 1) ([''a b $1'', ''${1}'', ''x''] ! 0)
        = Return ([[''a b c'', ''c'', ''x''], [''a b d'', ''d'', ''x'']] ! 1 ! 0)\<close>
proof -
  let ?L = "tableLib exampleDocs"
  have h1: "readData ?L ''c d'' False = Some (Return (Inr [[''c''], [''d'']]))"
    by code_simp
  have h2: "[[''c''], [''d'']] \<noteq> ([] :: string list list)" by simp
  have h3: "InputToCommands ?L ''c d'' [''a b $1'', ''${1}'', ''x''] False
              = Some (Return (Inr [[''a b c'', ''c'', ''x''], [''a b d'', ''d'', ''x'']]))"
    by code_simp
  have i: "1 < length [[''c''], [''d'']]" by simp
  have j: "0 < length [''a b $1'', ''${1}'', ''x'']" by simp
  from matrix_shape [OF h1 h2 h3] i j
  have "length [[''a b c'', ''c'', ''x''], [''a b d'', ''d'', ''x'']] = length [[''c''], [''d'']]
        \<and> length ([[''a b c'', ''c'', ''x''], [''a b d'', ''d'', ''x'']] ! 1)
             = length [''a b $1'', ''${1}'', ''x'']
        \<and> transform ?L ([[''c''], [''d'']] ! 1) ([''a b $1'', ''${1}'', ''x''] ! 0)
             = Return ([[''a b c'', ''c'', ''x''], [''a b d'', ''d'', ''x'']] ! 1 ! 0)"
    by blast
  with h1 h2 h3 show ?thesis by blast
qed

subsection \<open>The value \<^verbatim>\<open>null\<close> (C10)\<close>

text \<open>
  Claim C10: a decoded JSON value \<^verbatim>\<open>null\<close> gives no row and no error. The pass
  through the loop that decodes it adds only the words of the bytes buffered after it
  and starts the loop again on what is left. So for a stream that holds the text
  \<^verbatim>\<open>null\<close> and nothing else (no rows before it, no words after it, nothing left to
  decode), \<^verbatim>\<open>readData\<close> returns no rows and \<^verbatim>\<open>InputToCommands\<close> returns the matrix
  whose only row is the list of templates, unchanged.
\<close>

theorem null_is_dropped:
  assumes "reaches L e r (ForLoop dec) data"
    and "More L dec = (True, dec')"
    and "Decode L dec' = ((JNull, None), dec'')"
    and "ScanWords L (Buffered L dec'') = (ws, None)"
  shows "reaches L e r (ProcessLoop (MultiReader L [] (Source L dec''))) (data @ map (\<lambda>w. [w]) ws)
         \<and> (data = [] \<and> ws = []
              \<and> \<not> fst (More L (NewDecoder L (MultiReader L [] (Source L dec'')))) \<longrightarrow>
            readData L r e = Some (Return (Inr []))
            \<and> InputToCommands L r args e = Some (Return (Inr [args])))"
proof (intro conjI impI)
  show reach: "reaches L e r (ProcessLoop (MultiReader L [] (Source L dec''))) (data @ map (\<lambda>w. [w]) ws)"
    by (rule reaches.reach_restart [OF assms(1,2) loopBody_null [OF assms(3,4)]])
  assume sole: "data = [] \<and> ws = []
     \<and> \<not> fst (More L (NewDecoder L (MultiReader L [] (Source L dec''))))"
  then obtain d where "More L (NewDecoder L (MultiReader L [] (Source L dec''))) = (False, d)"
    by (cases "More L (NewDecoder L (MultiReader L [] (Source L dec'')))") simp
  with reach sole show rd: "readData L r e = Some (Return (Inr []))"
    by (simp add: reaches_readLoop readLoop_ProcessLoop readLoop_no_more)
  then show "InputToCommands L r args e = Some (Return (Inr [args]))"
    by (simp add: InputToCommands_def)
qed

text \<open>Claim C10 on the input \<^verbatim>\<open>null\<close> with the template \<^verbatim>\<open>a b $1\<close>.\<close>

theorem null_is_dropped_witness:
  \<open>reaches (tableLib exampleDocs) False ''null'' (ForLoop ''null'') []
   \<and> More (tableLib exampleDocs) ''null'' = (True, ''null'')
   \<and> Decode (tableLib exampleDocs) ''null'' = ((JNull, None), [])
   \<and> ScanWords (tableLib exampleDocs) (Buffered (tableLib exampleDocs) []) = ([], None)
   \<and> readData (tableLib exampleDocs) ''null'' False = Some (Return (Inr []))
   \<and> InputToCommands (tableLib exampleDocs) ''null'' [''a b $1''] False
        = Some (Return (Inr [[''a b $1'']]))\<close>
proof -
  let ?L = "tableLib exampleDocs"
  have h1: "reaches ?L False ''null'' (ForLoop ''null'') []" by (rule tableLib_reaches_first)
  have h2: "More ?L ''null'' = (True, ''null'')" by code_simp
  have h3: "Decode ?L ''null'' = ((JNull, None), [])" by code_simp
  have h4: "ScanWords ?L (Buffered ?L []) = ([], None)" by code_simp
  have h5: "\<not> fst (More ?L (NewDecoder ?L (MultiReader ?L [] (Source ?L []))))" by code_simp
  from null_is_dropped [OF h1 h2 h3 h4, of "[''a b $1'']"] h1 h2 h3 h4 h5
  show ?thesis by simp
qed

end
